theory Spec2Isabelle
  imports Complex_Main "HOL-Library.Log_Nat"
begin

section \<open>Basket price estimation (predict_basket_price)\<close>

text \<open>
  The four application files (Capstone.py, BeldyConnect.py, Beldy-Connect.py and
  Beldy_Connect.py) each define \<^verbatim>\<open>predict_basket_price(diet_type, nutrition_data,
  selected_items, budget)\<close>. The function reads two entries of the session state: the
  fitted model (\<^verbatim>\<open>st.session_state.model\<close>) and the catalog
  (\<^verbatim>\<open>st.session_state.all_items\<close>).

  Two readings of the numbers are given. In the first, Python's \<^verbatim>\<open>int\<close> and
  \<^verbatim>\<open>float\<close> values are the real numbers they denote and every operation is exact; it
  serves the properties that relate quantities computed in the same arithmetic. In the
  second, the arithmetic of the fallback and of the clamp bounds is that of binary64,
  rounded at every step; it serves the properties that name a decimal constant.
\<close>

subsection \<open>Python values and built-ins used by the function\<close>

datatype py_error =
    KeyError string
  | ValueError string
  | PredictError string

text \<open>\<^verbatim>\<open>d[k]\<close> on a dict raises KeyError for a missing key; \<^verbatim>\<open>d.get(k, default)\<close>
  returns the default instead.\<close>

definition getitem :: "(string \<rightharpoonup> 'v) \<Rightarrow> string \<Rightarrow> py_error + 'v" where
  "getitem d k = (case d k of None \<Rightarrow> Inl (KeyError k) | Some v \<Rightarrow> Inr v)"

definition dict_get :: "(string \<rightharpoonup> 'v) \<Rightarrow> string \<Rightarrow> 'v \<Rightarrow> 'v" where
  "dict_get d k dflt = (case d k of None \<Rightarrow> dflt | Some v \<Rightarrow> v)"

text \<open>\<^verbatim>\<open>sub in s\<close> on strings: \<open>sub\<close> occurs in \<open>s\<close> as a contiguous,
  case-sensitive run of characters.\<close>

fun startswith :: "string \<Rightarrow> string \<Rightarrow> bool" where
  "startswith s [] = True"
| "startswith [] (c # cs) = False"
| "startswith (x # xs) (c # cs) = (x = c \<and> startswith xs cs)"

fun str_in :: "string \<Rightarrow> string \<Rightarrow> bool" where
  "str_in sub [] = (sub = [])"
| "str_in sub (x # xs) = (startswith (x # xs) sub \<or> str_in sub xs)"

subsection \<open>Session state, model input and model\<close>

text \<open>The one-row data frame handed to the model, one field per column.\<close>

record input_row =
  Diet_Type :: string
  Weekly_Fats :: real
  Weekly_Carbs :: real
  Weekly_Proteins :: real
  Weekly_Fiber :: real
  Item_Count :: nat
  Has_Protein :: int
  Budget :: real

text \<open>
  The fitted pipeline is opaque: \<^verbatim>\<open>model.predict(input_data)[0]\<close> either yields a number
  or raises. The session entry is \<^verbatim>\<open>None\<close> until a model has been loaded or built; a
  pipeline object is truthy.
\<close>

type_synonym price_model = "input_row \<Rightarrow> py_error + real"

record session_state =
  model :: "price_model option"
  all_items :: "string \<rightharpoonup> real"

subsection \<open>predict_basket_price in Capstone.py\<close>

text \<open>The dict literal given to \<^verbatim>\<open>pd.DataFrame\<close>, built before the \<^verbatim>\<open>try\<close>; its
  subscripts are evaluated in the order written.\<close>

definition input_data ::
  "string \<Rightarrow> (string \<rightharpoonup> real) \<Rightarrow> string list \<Rightarrow> real \<Rightarrow> py_error + input_row" where
  "input_data diet_type nutrition_data selected_items budget =
     (case getitem nutrition_data ''fats'' of Inl e \<Rightarrow> Inl e | Inr fats \<Rightarrow>
     (case getitem nutrition_data ''carbs'' of Inl e \<Rightarrow> Inl e | Inr carbs \<Rightarrow>
     (case getitem nutrition_data ''proteins'' of Inl e \<Rightarrow> Inl e | Inr proteins \<Rightarrow>
     (case getitem nutrition_data ''fiber'' of Inl e \<Rightarrow> Inl e | Inr fiber \<Rightarrow>
        Inr \<lparr> Diet_Type = diet_type,
              Weekly_Fats = fats,
              Weekly_Carbs = carbs,
              Weekly_Proteins = proteins,
              Weekly_Fiber = fiber,
              Item_Count = length selected_items,
              Has_Protein =
                (if list_ex (\<lambda>item. str_in ''Chicken'' item \<or> str_in ''Eggs'' item
                                   \<or> str_in ''Milk'' item) selected_items
                 then 1 else 0),
              Budget = budget \<rparr>))))"

text \<open>The body of the \<^verbatim>\<open>try\<close>: the model's prediction, or ValueError when no model
  is loaded.\<close>

definition model_price :: "session_state \<Rightarrow> input_row \<Rightarrow> py_error + real" where
  "model_price st row =
     (case model st of
        Some m \<Rightarrow> m row
      | None \<Rightarrow> Inl (ValueError ''Model not loaded''))"

text \<open>The body of the bare \<^verbatim>\<open>except\<close>: the fallback calculation.\<close>

definition fallback_price ::
  "session_state \<Rightarrow> (string \<rightharpoonup> real) \<Rightarrow> string list \<Rightarrow> py_error + real" where
  "fallback_price st nutrition_data selected_items =
     (let base_price = (\<Sum>item\<leftarrow>selected_items. dict_get (all_items st) item 0);
          multiplier = 1.0
      in (case getitem nutrition_data ''proteins'' of Inl e \<Rightarrow> Inl e | Inr proteins \<Rightarrow>
         (let multiplier = (if proteins > 150 then multiplier + 0.1 else multiplier)
          in (case getitem nutrition_data ''fats'' of Inl e \<Rightarrow> Inl e | Inr fats \<Rightarrow>
         (let multiplier = (if fats > 80 then multiplier + 0.05 else multiplier)
          in (case getitem nutrition_data ''carbs'' of Inl e \<Rightarrow> Inl e | Inr carbs \<Rightarrow>
         (let multiplier = (if carbs < 1000 then multiplier + 0.05 else multiplier)
          in Inr (base_price * multiplier))))))))"

definition predict_basket_price ::
  "session_state \<Rightarrow> string \<Rightarrow> (string \<rightharpoonup> real) \<Rightarrow> string list \<Rightarrow> real \<Rightarrow> py_error + real" where
  "predict_basket_price st diet_type nutrition_data selected_items budget =
     (case input_data diet_type nutrition_data selected_items budget of
        Inl e \<Rightarrow> Inl e
      | Inr row \<Rightarrow>
          (case (case model_price st row of
                   Inr p \<Rightarrow> Inr p
                 | Inl _ \<Rightarrow> fallback_price st nutrition_data selected_items) of
             Inl e \<Rightarrow> Inl e
           | Inr predicted_price \<Rightarrow>
               (let min_price =
                      (\<Sum>item\<leftarrow>selected_items. dict_get (all_items st) item 0) * 0.8;
                    max_price =
                      (\<Sum>item\<leftarrow>selected_items. dict_get (all_items st) item 0) * 1.5
                in Inr (max (min predicted_price max_price) min_price))))"

subsection \<open>predict_basket_price in the other three files\<close>

text \<open>Each copy is transcribed in one piece, statement by statement: the data frame row,
  the \<^verbatim>\<open>try\<close>, the \<^verbatim>\<open>except\<close> with the fallback calculation, and the final
  clamp.\<close>

text \<open>BeldyConnect.py, lines 89 to 118.\<close>

definition predict_basket_price_BeldyConnect ::
  "session_state \<Rightarrow> string \<Rightarrow> (string \<rightharpoonup> real) \<Rightarrow> string list \<Rightarrow> real \<Rightarrow> py_error + real" where
  "predict_basket_price_BeldyConnect st diet_type nutrition_data selected_items budget =
     (case getitem nutrition_data ''fats'' of Inl e \<Rightarrow> Inl e | Inr fats0 \<Rightarrow>
     (case getitem nutrition_data ''carbs'' of Inl e \<Rightarrow> Inl e | Inr carbs0 \<Rightarrow>
     (case getitem nutrition_data ''proteins'' of Inl e \<Rightarrow> Inl e | Inr proteins0 \<Rightarrow>
     (case getitem nutrition_data ''fiber'' of Inl e \<Rightarrow> Inl e | Inr fiber0 \<Rightarrow>
     (let row = \<lparr> Diet_Type = diet_type, Weekly_Fats = fats0, Weekly_Carbs = carbs0,
                     Weekly_Proteins = proteins0, Weekly_Fiber = fiber0,
                     Item_Count = length selected_items,
                     Has_Protein =
                       (if list_ex (\<lambda>item. str_in ''Chicken'' item \<or> str_in ''Eggs'' item
                                          \<or> str_in ''Milk'' item) selected_items
                        then 1 else 0),
                     Budget = budget \<rparr>;
          tried = (case model st of
                     Some m \<Rightarrow> m row
                   | None \<Rightarrow> Inl (ValueError ''Model not loaded''));
          handled =
            (case tried of
               Inr p \<Rightarrow> Inr p
             | Inl _ \<Rightarrow>
                (let base_price = (\<Sum>item\<leftarrow>selected_items. dict_get (all_items st) item 0);
                     multiplier = 1.0
                 in (case getitem nutrition_data ''proteins'' of Inl e \<Rightarrow> Inl e | Inr proteins \<Rightarrow>
                    (let multiplier = (if proteins > 150 then multiplier + 0.1 else multiplier)
                     in (case getitem nutrition_data ''fats'' of Inl e \<Rightarrow> Inl e | Inr fats \<Rightarrow>
                    (let multiplier = (if fats > 80 then multiplier + 0.05 else multiplier)
                     in (case getitem nutrition_data ''carbs'' of Inl e \<Rightarrow> Inl e | Inr carbs \<Rightarrow>
                    (let multiplier = (if carbs < 1000 then multiplier + 0.05 else multiplier)
                     in Inr (base_price * multiplier)))))))))
      in (case handled of
            Inl e \<Rightarrow> Inl e
          | Inr predicted_price \<Rightarrow>
              (let min_price =
                     (\<Sum>item\<leftarrow>selected_items. dict_get (all_items st) item 0) * 0.8;
                   max_price =
                     (\<Sum>item\<leftarrow>selected_items. dict_get (all_items st) item 0) * 1.5
               in Inr (max (min predicted_price max_price) min_price))))))))"

text \<open>Beldy-Connect.py, lines 97 to 126.\<close>

definition predict_basket_price_BeldyHyphenConnect ::
  "session_state \<Rightarrow> string \<Rightarrow> (string \<rightharpoonup> real) \<Rightarrow> string list \<Rightarrow> real \<Rightarrow> py_error + real" where
  "predict_basket_price_BeldyHyphenConnect st diet_type nutrition_data selected_items budget =
     (case getitem nutrition_data ''fats'' of Inl e \<Rightarrow> Inl e | Inr fats0 \<Rightarrow>
     (case getitem nutrition_data ''carbs'' of Inl e \<Rightarrow> Inl e | Inr carbs0 \<Rightarrow>
     (case getitem nutrition_data ''proteins'' of Inl e \<Rightarrow> Inl e | Inr proteins0 \<Rightarrow>
     (case getitem nutrition_data ''fiber'' of Inl e \<Rightarrow> Inl e | Inr fiber0 \<Rightarrow>
     (let row = \<lparr> Diet_Type = diet_type, Weekly_Fats = fats0, Weekly_Carbs = carbs0,
                     Weekly_Proteins = proteins0, Weekly_Fiber = fiber0,
                     Item_Count = length selected_items,
                     Has_Protein =
                       (if list_ex (\<lambda>item. str_in ''Chicken'' item \<or> str_in ''Eggs'' item
                                          \<or> str_in ''Milk'' item) selected_items
                        then 1 else 0),
                     Budget = budget \<rparr>;
          tried = (case model st of
                     Some m \<Rightarrow> m row
                   | None \<Rightarrow> Inl (ValueError ''Model not loaded''));
          handled =
            (case tried of
               Inr p \<Rightarrow> Inr p
             | Inl _ \<Rightarrow>
                (let base_price = (\<Sum>item\<leftarrow>selected_items. dict_get (all_items st) item 0);
                     multiplier = 1.0
                 in (case getitem nutrition_data ''proteins'' of Inl e \<Rightarrow> Inl e | Inr proteins \<Rightarrow>
                    (let multiplier = (if proteins > 150 then multiplier + 0.1 else multiplier)
                     in (case getitem nutrition_data ''fats'' of Inl e \<Rightarrow> Inl e | Inr fats \<Rightarrow>
                    (let multiplier = (if fats > 80 then multiplier + 0.05 else multiplier)
                     in (case getitem nutrition_data ''carbs'' of Inl e \<Rightarrow> Inl e | Inr carbs \<Rightarrow>
                    (let multiplier = (if carbs < 1000 then multiplier + 0.05 else multiplier)
                     in Inr (base_price * multiplier)))))))))
      in (case handled of
            Inl e \<Rightarrow> Inl e
          | Inr predicted_price \<Rightarrow>
              (let min_price =
                     (\<Sum>item\<leftarrow>selected_items. dict_get (all_items st) item 0) * 0.8;
                   max_price =
                     (\<Sum>item\<leftarrow>selected_items. dict_get (all_items st) item 0) * 1.5
               in Inr (max (min predicted_price max_price) min_price))))))))"

text \<open>Beldy_Connect.py, lines 110 to 139.\<close>

definition predict_basket_price_BeldyUnderscoreConnect ::
  "session_state \<Rightarrow> string \<Rightarrow> (string \<rightharpoonup> real) \<Rightarrow> string list \<Rightarrow> real \<Rightarrow> py_error + real" where
  "predict_basket_price_BeldyUnderscoreConnect st diet_type nutrition_data selected_items budget =
     (case getitem nutrition_data ''fats'' of Inl e \<Rightarrow> Inl e | Inr fats0 \<Rightarrow>
     (case getitem nutrition_data ''carbs'' of Inl e \<Rightarrow> Inl e | Inr carbs0 \<Rightarrow>
     (case getitem nutrition_data ''proteins'' of Inl e \<Rightarrow> Inl e | Inr proteins0 \<Rightarrow>
     (case getitem nutrition_data ''fiber'' of Inl e \<Rightarrow> Inl e | Inr fiber0 \<Rightarrow>
     (let row = \<lparr> Diet_Type = diet_type, Weekly_Fats = fats0, Weekly_Carbs = carbs0,
                     Weekly_Proteins = proteins0, Weekly_Fiber = fiber0,
                     Item_Count = length selected_items,
                     Has_Protein =
                       (if list_ex (\<lambda>item. str_in ''Chicken'' item \<or> str_in ''Eggs'' item
                                          \<or> str_in ''Milk'' item) selected_items
                        then 1 else 0),
                     Budget = budget \<rparr>;
          tried = (case model st of
                     Some m \<Rightarrow> m row
                   | None \<Rightarrow> Inl (ValueError ''Model not loaded''));
          handled =
            (case tried of
               Inr p \<Rightarrow> Inr p
             | Inl _ \<Rightarrow>
                (let base_price = (\<Sum>item\<leftarrow>selected_items. dict_get (all_items st) item 0);
                     multiplier = 1.0
                 in (case getitem nutrition_data ''proteins'' of Inl e \<Rightarrow> Inl e | Inr proteins \<Rightarrow>
                    (let multiplier = (if proteins > 150 then multiplier + 0.1 else multiplier)
                     in (case getitem nutrition_data ''fats'' of Inl e \<Rightarrow> Inl e | Inr fats \<Rightarrow>
                    (let multiplier = (if fats > 80 then multiplier + 0.05 else multiplier)
                     in (case getitem nutrition_data ''carbs'' of Inl e \<Rightarrow> Inl e | Inr carbs \<Rightarrow>
                    (let multiplier = (if carbs < 1000 then multiplier + 0.05 else multiplier)
                     in Inr (base_price * multiplier)))))))))
      in (case handled of
            Inl e \<Rightarrow> Inl e
          | Inr predicted_price \<Rightarrow>
              (let min_price =
                     (\<Sum>item\<leftarrow>selected_items. dict_get (all_items st) item 0) * 0.8;
                   max_price =
                     (\<Sum>item\<leftarrow>selected_items. dict_get (all_items st) item 0) * 1.5
               in Inr (max (min predicted_price max_price) min_price))))))))"

subsection \<open>Notions of the specification\<close>

text \<open>The raw sum of a basket: the catalog prices of the selected items added up, an item
  that the catalog does not list counting as 0.\<close>

definition raw_sum :: "(string \<rightharpoonup> real) \<Rightarrow> string list \<Rightarrow> real" where
  "raw_sum catalog items =
     (\<Sum>item\<leftarrow>items. case catalog item of None \<Rightarrow> 0 | Some price \<Rightarrow> price)"

text \<open>Clamping a value to a band, as the glossary defines it.\<close>

definition clamp :: "real \<Rightarrow> real \<Rightarrow> real \<Rightarrow> real" where
  "clamp x lo hi = max (min x hi) lo"

text \<open>The stacking rule of the fallback multiplier: it starts at 1.0 and gains 0.1 for
  proteins above 150, 0.05 for fats above 80 and 0.05 for carbs below 1000.\<close>

definition spec_multiplier :: "real \<Rightarrow> real \<Rightarrow> real \<Rightarrow> real" where
  "spec_multiplier proteins fats carbs =
     1.0 + (if proteins > 150 then 0.1 else 0) + (if fats > 80 then 0.05 else 0)
         + (if carbs < 1000 then 0.05 else 0)"

text \<open>A name contains a word when the word occurs in it as a contiguous run of characters,
  compared character by character (hence case-sensitively).\<close>

definition contains :: "string \<Rightarrow> string \<Rightarrow> bool" where
  "contains s sub \<longleftrightarrow> (\<exists>pre suf. s = pre @ sub @ suf)"

subsection \<open>The concrete scenario of the specification\<close>

definition scenario_catalog :: "string \<rightharpoonup> real" where
  "scenario_catalog = [''Milk (1L)'' \<mapsto> 15, ''Bread (loaf)'' \<mapsto> 8, ''Eggs (dozen)'' \<mapsto> 20]"

definition scenario_items :: "string list" where
  "scenario_items = [''Milk (1L)'', ''Bread (loaf)'', ''Eggs (dozen)'']"

definition scenario_profile :: "real \<Rightarrow> (string \<rightharpoonup> real)" where
  "scenario_profile fiber =
     [''proteins'' \<mapsto> 200, ''carbs'' \<mapsto> 1500, ''fats'' \<mapsto> 50, ''fiber'' \<mapsto> fiber]"

subsection \<open>Binary floating point\<close>

text \<open>
  Python's \<^verbatim>\<open>float\<close> is IEEE 754 binary64: every literal, every conversion from
  \<^verbatim>\<open>int\<close> and every arithmetic operation yields the representable number nearest to
  the exact result, ties going to the even significand. A binary64 number is read as the
  real number it denotes. The exponent range is not bounded here: the rounding below is
  that of binary64 for results of magnitude from \<open>2 powi (-1022)\<close> up to, but excluding,
  \<open>2 ^ 1024\<close>; overflow, subnormal numbers, infinities and NaN are not modelled.
\<close>

text \<open>Rounding a real to the nearest integer, a tie to the even one.\<close>

definition round_half_even :: "real \<Rightarrow> int" where
  "round_half_even t =
     (let f = \<lfloor>t\<rfloor>; r = t - of_int f
      in if r < 1/2 then f else if 1/2 < r then f + 1 else if even f then f else f + 1)"

text \<open>The binade of a positive real \<open>x\<close>: the integer \<open>e\<close> with
  \<open>2 powi e \<le> x < 2 powi (e + 1)\<close>, computed from the bit length of an integer.\<close>

definition binade :: "real \<Rightarrow> int" where
  "binade x = (if 1 \<le> x then bitlen \<lfloor>x\<rfloor> - 1 else - bitlen (\<lceil>1 / x\<rceil> - 1))"

text \<open>Rounding to binary64: a significand of 53 bits, so the spacing of the representable
  numbers in the binade \<open>e\<close> is \<open>2 powi (e - 52)\<close>.\<close>

definition binary64 :: "real \<Rightarrow> real" where
  "binary64 x =
     (if x = 0 then 0
      else (let u = 2 powi (binade \<bar>x\<bar> - 52)
            in sgn x * of_int (round_half_even (\<bar>x\<bar> / u)) * u))"

definition float_add :: "real \<Rightarrow> real \<Rightarrow> real" where
  "float_add a b = binary64 (a + b)"

definition float_mul :: "real \<Rightarrow> real \<Rightarrow> real" where
  "float_mul a b = binary64 (a * b)"

text \<open>An \<^verbatim>\<open>int\<close> operand of a mixed operation is converted to \<^verbatim>\<open>float\<close> first.\<close>

definition float_of_int :: "int \<Rightarrow> real" where
  "float_of_int n = binary64 (of_int n)"

subsection \<open>predict_basket_price in Capstone.py, in binary64 arithmetic\<close>

text \<open>
  The same statements with the arithmetic of the source: the catalog prices are Python
  integers, as in the \<^verbatim>\<open>all_items\<close> table of the application, so each sum is an exact
  integer; the literals \<^verbatim>\<open>1.0\<close>, \<^verbatim>\<open>0.1\<close>, \<^verbatim>\<open>0.05\<close>, \<^verbatim>\<open>0.8\<close> and \<^verbatim>\<open>1.5\<close> are binary64
  numbers; \<^verbatim>\<open>+=\<close> and \<^verbatim>\<open>*\<close> round. Comparisons are exact. The model and the catalog are
  the two session entries the function reads, here the arguments \<open>fitted\<close> and
  \<open>prices\<close>; the row is built by \<open>input_data\<close>.
\<close>

definition fallback_price_binary64 ::
  "(string \<rightharpoonup> int) \<Rightarrow> (string \<rightharpoonup> real) \<Rightarrow> string list \<Rightarrow> py_error + real" where
  "fallback_price_binary64 prices nutrition_data selected_items =
     (let base_price = (\<Sum>item\<leftarrow>selected_items. dict_get prices item 0);
          multiplier = binary64 1.0
      in (case getitem nutrition_data ''proteins'' of Inl e \<Rightarrow> Inl e | Inr proteins \<Rightarrow>
         (let multiplier =
                (if proteins > 150 then float_add multiplier (binary64 0.1) else multiplier)
          in (case getitem nutrition_data ''fats'' of Inl e \<Rightarrow> Inl e | Inr fats \<Rightarrow>
         (let multiplier =
                (if fats > 80 then float_add multiplier (binary64 0.05) else multiplier)
          in (case getitem nutrition_data ''carbs'' of Inl e \<Rightarrow> Inl e | Inr carbs \<Rightarrow>
         (let multiplier =
                (if carbs < 1000 then float_add multiplier (binary64 0.05) else multiplier)
          in Inr (float_mul (float_of_int base_price) multiplier))))))))"

definition predict_basket_price_binary64 ::
  "price_model option \<Rightarrow> (string \<rightharpoonup> int) \<Rightarrow> string \<Rightarrow> (string \<rightharpoonup> real) \<Rightarrow> string list \<Rightarrow> real
     \<Rightarrow> py_error + real" where
  "predict_basket_price_binary64 fitted prices diet_type nutrition_data selected_items budget =
     (case input_data diet_type nutrition_data selected_items budget of
        Inl e \<Rightarrow> Inl e
      | Inr row \<Rightarrow>
          (case (case (case fitted of
                         Some m \<Rightarrow> m row
                       | None \<Rightarrow> Inl (ValueError ''Model not loaded'')) of
                   Inr p \<Rightarrow> Inr p
                 | Inl _ \<Rightarrow> fallback_price_binary64 prices nutrition_data selected_items) of
             Inl e \<Rightarrow> Inl e
           | Inr predicted_price \<Rightarrow>
               (let min_price =
                      float_mul
                        (float_of_int (\<Sum>item\<leftarrow>selected_items. dict_get prices item 0))
                        (binary64 0.8);
                    max_price =
                      float_mul
                        (float_of_int (\<Sum>item\<leftarrow>selected_items. dict_get prices item 0))
                        (binary64 1.5)
                in Inr (max (min predicted_price max_price) min_price))))"

text \<open>The stacking rule of the fallback multiplier, each addition rounded to binary64.\<close>

definition multiplier_binary64 :: "real \<Rightarrow> real \<Rightarrow> real \<Rightarrow> real" where
  "multiplier_binary64 proteins fats carbs =
     (let m0 = binary64 1.0;
          m1 = (if proteins > 150 then float_add m0 (binary64 0.1) else m0);
          m2 = (if fats > 80 then float_add m1 (binary64 0.05) else m1)
      in if carbs < 1000 then float_add m2 (binary64 0.05) else m2)"

text \<open>The catalog of the concrete scenario with its prices as integers.\<close>

definition scenario_prices :: "string \<rightharpoonup> int" where
  "scenario_prices = [''Milk (1L)'' \<mapsto> 15, ''Bread (loaf)'' \<mapsto> 8, ''Eggs (dozen)'' \<mapsto> 20]"

section \<open>Properties\<close>

subsection \<open>Auxiliary facts\<close>

lemma sum_get_raw_sum:
  "(\<Sum>item\<leftarrow>items. dict_get catalog item 0) = raw_sum catalog items"
  by (simp add: raw_sum_def dict_get_def)

lemma raw_sum_present:
  "set items \<subseteq> dom catalog \<Longrightarrow>
     raw_sum catalog items = (\<Sum>item\<leftarrow>items. the (catalog item))"
  unfolding raw_sum_def by (induction items) auto


lemma input_data_fields:
  assumes "nd ''fats'' = Some f" "nd ''carbs'' = Some c"
    and "nd ''proteins'' = Some p" "nd ''fiber'' = Some fb"
  shows "\<exists>row. input_data diet nd items budget = Inr row"
  using assms by (simp add: input_data_def getitem_def)

lemma fallback_price_eq:
  assumes "nd ''fats'' = Some f" "nd ''carbs'' = Some c" "nd ''proteins'' = Some p"
  shows "fallback_price st nd items =
           Inr (raw_sum (all_items st) items * spec_multiplier p f c)"
  using assms
  by (simp add: fallback_price_def getitem_def sum_get_raw_sum spec_multiplier_def Let_def)

text \<open>The result of the function once the data frame row exists: the model's prediction,
  or the fallback product when the \<^verbatim>\<open>try\<close> raised, clamped to the band.\<close>

lemma predict_eq:
  assumes "input_data diet nd items budget = Inr row"
    and "nd ''fats'' = Some f" "nd ''carbs'' = Some c" "nd ''proteins'' = Some p"
  shows "predict_basket_price st diet nd items budget =
     Inr (clamp (case model_price st row of Inr v \<Rightarrow> v
                | Inl _ \<Rightarrow> raw_sum (all_items st) items * spec_multiplier p f c)
           (raw_sum (all_items st) items * 0.8) (raw_sum (all_items st) items * 1.5))"
  using assms
  by (simp add: predict_basket_price_def fallback_price_eq sum_get_raw_sum clamp_def Let_def
           split: sum.splits)

text \<open>A missing nutrition key is raised to the caller: the row is built before the
  \<^verbatim>\<open>try\<close>.\<close>

lemma predict_missing_key:
  "nd ''fats'' = None \<Longrightarrow> predict_basket_price st diet nd items budget = Inl (KeyError ''fats'')"
  by (simp add: predict_basket_price_def input_data_def getitem_def)

text \<open>The executable substring test agrees with the existence of a decomposition.\<close>

lemma startswith_iff: "startswith s sub \<longleftrightarrow> (\<exists>suf. s = sub @ suf)"
  by (induction s sub rule: startswith.induct) auto

lemma str_in_iff: "str_in sub s \<longleftrightarrow> (\<exists>pre suf. s = pre @ sub @ suf)"
proof (induction s)
  case Nil
  then show ?case by auto
next
  case (Cons x xs)
  show ?case
  proof
    assume "str_in sub (x # xs)"
    then consider "startswith (x # xs) sub" | "str_in sub xs" by auto
    then show "\<exists>pre suf. x # xs = pre @ sub @ suf"
    proof cases
      case 1
      then obtain suf where "x # xs = sub @ suf" by (auto simp: startswith_iff)
      then have "x # xs = [] @ sub @ suf" by simp
      then show ?thesis by blast
    next
      case 2
      with Cons.IH obtain pre suf where "xs = pre @ sub @ suf" by auto
      then have "x # xs = (x # pre) @ sub @ suf" by simp
      then show ?thesis by blast
    qed
  next
    assume "\<exists>pre suf. x # xs = pre @ sub @ suf"
    then obtain pre suf where eq: "x # xs = pre @ sub @ suf" by auto
    show "str_in sub (x # xs)"
    proof (cases pre)
      case Nil
      with eq have "startswith (x # xs) sub" by (auto simp: startswith_iff)
      then show ?thesis by simp
    next
      case (Cons y pre')
      with eq have "xs = pre' @ sub @ suf" by simp
      with Cons.IH have "str_in sub xs" by blast
      then show ?thesis by simp
    qed
  qed
qed

lemma str_in_contains: "str_in sub s = contains s sub"
  by (simp only: str_in_iff contains_def)

lemma raw_sum_filter:
  "raw_sum catalog items =
     (\<Sum>item\<leftarrow>filter (\<lambda>item. catalog item \<noteq> None) items. the (catalog item))"
  unfolding raw_sum_def by (induction items) auto


subsection \<open>Facts about binary64 rounding\<close>

lemma bitlen_ge_one: "0 < n \<Longrightarrow> 1 \<le> bitlen n"
  by (auto simp: bitlen_alt_def)

lemma binade_lower:
  assumes "0 < x"
  shows "2 powi binade x \<le> x"
proof (cases "1 \<le> x")
  case True
  define n where "n = \<lfloor>x\<rfloor>"
  have n: "0 < n" using True by (simp add: n_def)
  have b: "1 \<le> bitlen n" using n by (rule bitlen_ge_one)
  have "(2::int) ^ nat (bitlen n - 1) \<le> n" using bitlen_bounds[OF n] by simp
  then have "of_int ((2::int) ^ nat (bitlen n - 1)) \<le> (of_int n :: real)"
    by (simp only: of_int_le_iff)
  then have "(2::real) ^ nat (bitlen n - 1) \<le> of_int n" by simp
  also have "\<dots> \<le> x" by (simp add: n_def)
  finally have "(2::real) ^ nat (bitlen n - 1) \<le> x" .
  moreover have "binade x = bitlen n - 1" using True by (simp add: binade_def n_def)
  ultimately show ?thesis using b by (simp add: power_int_def)
next
  case False
  then have x1: "x < 1" by simp
  define c where "c = \<lceil>1 / x\<rceil>"
  have y: "1 < 1 / x" using assms x1 by simp
  have c: "0 < c - 1" using y by (simp add: c_def less_ceiling_iff)
  have b: "1 \<le> bitlen (c - 1)" using c by (rule bitlen_ge_one)
  have "c - 1 < 2 ^ nat (bitlen (c - 1))" using bitlen_bounds[OF c] by simp
  then have "c \<le> 2 ^ nat (bitlen (c - 1))" by simp
  then have "(of_int c :: real) \<le> of_int (2 ^ nat (bitlen (c - 1)))"
    by (simp only: of_int_le_iff)
  then have "(of_int c :: real) \<le> 2 ^ nat (bitlen (c - 1))" by simp
  moreover have "1 / x \<le> of_int c" by (simp add: c_def)
  ultimately have "1 / x \<le> 2 ^ nat (bitlen (c - 1))" by linarith
  then have "1 \<le> 2 ^ nat (bitlen (c - 1)) * x"
    using assms by (simp add: field_simps)
  then have "inverse (2 ^ nat (bitlen (c - 1))) \<le> x"
    by (simp add: field_simps)
  moreover have "binade x = - bitlen (c - 1)" using False by (simp add: binade_def c_def)
  ultimately show ?thesis using b
    by (simp add: power_int_def power_one_over inverse_eq_divide)
qed

lemma binade_upper:
  assumes "0 < x"
  shows "x < 2 powi (binade x + 1)"
proof (cases "1 \<le> x")
  case True
  define n where "n = \<lfloor>x\<rfloor>"
  have n: "0 < n" using True by (simp add: n_def)
  have b: "1 \<le> bitlen n" using n by (rule bitlen_ge_one)
  have "n < 2 ^ nat (bitlen n)" using bitlen_bounds[OF n] by simp
  then have "n + 1 \<le> 2 ^ nat (bitlen n)" by simp
  then have "(of_int (n + 1) :: real) \<le> of_int (2 ^ nat (bitlen n))"
    by (simp only: of_int_le_iff)
  then have "(of_int n :: real) + 1 \<le> 2 ^ nat (bitlen n)" by simp
  moreover have "x < of_int n + 1" by (simp add: n_def)
  ultimately have "x < 2 ^ nat (bitlen n)" by linarith
  moreover have "binade x + 1 = bitlen n" using True by (simp add: binade_def n_def)
  ultimately show ?thesis using b by (simp add: power_int_def)
next
  case False
  then have x1: "x < 1" by simp
  define c where "c = \<lceil>1 / x\<rceil>"
  have y: "1 < 1 / x" using assms x1 by simp
  have c: "0 < c - 1" using y by (simp add: c_def less_ceiling_iff)
  have b: "1 \<le> bitlen (c - 1)" using c by (rule bitlen_ge_one)
  have "2 ^ nat (bitlen (c - 1) - 1) \<le> c - 1" using bitlen_bounds[OF c] by simp
  then have "(of_int (2 ^ nat (bitlen (c - 1) - 1)) :: real) \<le> of_int (c - 1)"
    by (simp only: of_int_le_iff)
  then have "(2::real) ^ nat (bitlen (c - 1) - 1) \<le> of_int c - 1" by simp
  moreover have "of_int c - 1 < 1 / x" unfolding c_def by linarith
  ultimately have "(2::real) ^ nat (bitlen (c - 1) - 1) < 1 / x" by linarith
  then have "2 ^ nat (bitlen (c - 1) - 1) * x < 1"
    using assms by (simp add: field_simps)
  then have "x < inverse (2 ^ nat (bitlen (c - 1) - 1))"
    by (simp add: field_simps)
  moreover have "binade x + 1 = - (bitlen (c - 1) - 1)"
    using False by (simp add: binade_def c_def)
  ultimately show ?thesis using b
    by (cases "bitlen (c - 1) = 1")
       (simp_all add: power_int_def power_one_over inverse_eq_divide)
qed

lemma binade_mono:
  assumes "0 < x" "x \<le> y"
  shows "binade x \<le> binade y"
proof (rule ccontr)
  assume "\<not> binade x \<le> binade y"
  then have "binade y + 1 \<le> binade x" by simp
  then have "(2::real) powi (binade y + 1) \<le> 2 powi binade x"
    by (intro power_int_increasing) simp_all
  also have "\<dots> \<le> x" using assms(1) by (rule binade_lower)
  also have "\<dots> \<le> y" by fact
  finally show False using binade_upper[of y] assms by simp
qed

lemma round_half_even_of_int: "round_half_even (of_int n) = n"
  by (simp add: round_half_even_def)

lemma round_half_even_range:
  "\<lfloor>t\<rfloor> \<le> round_half_even t \<and> round_half_even t \<le> \<lfloor>t\<rfloor> + 1"
  by (simp add: round_half_even_def Let_def)

lemma round_half_even_mono:
  assumes "s \<le> t"
  shows "round_half_even s \<le> round_half_even t"
proof (cases "\<lfloor>s\<rfloor> = \<lfloor>t\<rfloor>")
  case True
  then show ?thesis using assms by (auto simp: round_half_even_def Let_def)
next
  case False
  moreover have "\<lfloor>s\<rfloor> \<le> \<lfloor>t\<rfloor>" using assms by (rule floor_mono)
  ultimately have "\<lfloor>s\<rfloor> + 1 \<le> \<lfloor>t\<rfloor>" by simp
  then show ?thesis
    using round_half_even_range[of s] round_half_even_range[of t] by linarith
qed

lemma binary64_pos:
  assumes "0 < x"
  shows "binary64 x =
           of_int (round_half_even (x / 2 powi (binade x - 52))) * 2 powi (binade x - 52)"
  using assms by (simp add: binary64_def Let_def)

text \<open>The rounded value stays in the closed binade of its argument.\<close>

lemma binary64_binade:
  assumes "0 < x"
  shows "2 powi binade x \<le> binary64 x" and "binary64 x \<le> 2 powi (binade x + 1)"
proof -
  let ?u = "(2::real) powi (binade x - 52)"
  have u: "0 < ?u" by simp
  have lo: "2 powi binade x = of_int (2 ^ 52) * ?u"
    using power_int_add[of "2::real" 52 "binade x - 52"] by simp
  have hi: "2 powi (binade x + 1) = of_int (2 ^ 53) * ?u"
    using power_int_add[of "2::real" 53 "binade x - 52"] by (simp add: add.commute)
  have "of_int (2 ^ 52) * ?u \<le> x" using binade_lower[OF assms] lo by simp
  then have "of_int (2 ^ 52) \<le> x / ?u" using u by (simp add: pos_le_divide_eq)
  then have "round_half_even (of_int (2 ^ 52)) \<le> round_half_even (x / ?u)"
    by (rule round_half_even_mono)
  then have "(2::int) ^ 52 \<le> round_half_even (x / ?u)"
    by (simp only: round_half_even_of_int)
  then have "(of_int (2 ^ 52) :: real) \<le> of_int (round_half_even (x / ?u))"
    by (simp only: of_int_le_iff)
  then have "of_int (2 ^ 52) * ?u \<le> of_int (round_half_even (x / ?u)) * ?u"
    using u by (simp only: mult_le_cancel_right_pos)
  then show "2 powi binade x \<le> binary64 x"
    by (simp only: lo binary64_pos[OF assms])
  have "x \<le> of_int (2 ^ 53) * ?u" using binade_upper[OF assms] hi by simp
  then have "x / ?u \<le> of_int (2 ^ 53)" using u by (simp add: pos_divide_le_eq)
  then have "round_half_even (x / ?u) \<le> round_half_even (of_int (2 ^ 53))"
    by (rule round_half_even_mono)
  then have "round_half_even (x / ?u) \<le> (2::int) ^ 53"
    by (simp only: round_half_even_of_int)
  then have "(of_int (round_half_even (x / ?u)) :: real) \<le> of_int (2 ^ 53)"
    by (simp only: of_int_le_iff)
  then have "of_int (round_half_even (x / ?u)) * ?u \<le> of_int (2 ^ 53) * ?u"
    using u by (simp only: mult_le_cancel_right_pos)
  then show "binary64 x \<le> 2 powi (binade x + 1)"
    by (simp only: hi binary64_pos[OF assms])
qed

lemma binary64_mono_pos:
  assumes "0 < x" "x \<le> y"
  shows "binary64 x \<le> binary64 y"
proof (cases "binade x = binade y")
  case True
  let ?u = "(2::real) powi (binade y - 52)"
  have u: "0 < ?u" by simp
  have y: "0 < y" using assms by simp
  have "x / ?u \<le> y / ?u" using assms u by (simp add: divide_right_mono)
  then have "round_half_even (x / ?u) \<le> round_half_even (y / ?u)"
    by (rule round_half_even_mono)
  then have "(of_int (round_half_even (x / ?u)) :: real) \<le> of_int (round_half_even (y / ?u))"
    by (simp only: of_int_le_iff)
  then have "of_int (round_half_even (x / ?u)) * ?u \<le> of_int (round_half_even (y / ?u)) * ?u"
    using u by (simp only: mult_le_cancel_right_pos)
  then show ?thesis
    by (simp only: binary64_pos[OF assms(1)] binary64_pos[OF y] True)
next
  case False
  have y: "0 < y" using assms by simp
  from False binade_mono[OF assms] have "binade x + 1 \<le> binade y" by simp
  then have "(2::real) powi (binade x + 1) \<le> 2 powi binade y"
    by (intro power_int_increasing) simp_all
  with binary64_binade(2)[OF assms(1)] binary64_binade(1)[OF y]
  show ?thesis by linarith
qed

lemma binary64_zero: "binary64 0 = 0"
  by (simp add: binary64_def)

lemma binary64_nonneg: "0 \<le> x \<Longrightarrow> 0 \<le> binary64 x"
proof (cases "x = 0")
  case True
  then show ?thesis by (simp add: binary64_zero)
next
  case False
  assume "0 \<le> x"
  with False have x: "0 < x" by simp
  have "0 < (2::real) powi binade x" by simp
  with binary64_binade(1)[OF x] show ?thesis by linarith
qed

text \<open>Rounding is monotone on the non-negative reals.\<close>

lemma binary64_mono:
  assumes "0 \<le> x" "x \<le> y"
  shows "binary64 x \<le> binary64 y"
proof (cases "x = 0")
  case True
  with assms binary64_nonneg[of y] show ?thesis by (simp add: binary64_zero)
next
  case False
  with assms have "0 < x" by simp
  then show ?thesis using assms(2) by (rule binary64_mono_pos)
qed

text \<open>The literals of the function, and the multiplier for each combination of the three
  threshold conditions.\<close>

lemma binary64_literals:
  "binary64 1.0 = 1"
  "binary64 0.1 = 3602879701896397 / 2 ^ 55"
  "binary64 0.05 = 3602879701896397 / 2 ^ 56"
  "binary64 0.8 = 3602879701896397 / 2 ^ 52"
  "binary64 1.5 = 3 / 2"
  by code_simp+

lemma multiplier_binary64_values:
  "multiplier_binary64 150 80 1000 = 1"
  "multiplier_binary64 151 80 1000 = 2476979795053773 / 2 ^ 51"
  "multiplier_binary64 150 81 1000 = 4728779608739021 / 2 ^ 52"
  "multiplier_binary64 150 80 999 = 4728779608739021 / 2 ^ 52"
  "multiplier_binary64 151 81 1000 = 5179139571476071 / 2 ^ 52"
  "multiplier_binary64 151 80 999 = 5179139571476071 / 2 ^ 52"
  "multiplier_binary64 150 81 999 = 2476979795053773 / 2 ^ 51"
  "multiplier_binary64 151 81 999 = 1351079888211149 / 2 ^ 50"
  by code_simp+

lemma multiplier_binary64_cases:
  "multiplier_binary64 p f c =
     multiplier_binary64 (if p > 150 then 151 else 150) (if f > 80 then 81 else 80)
       (if c < 1000 then 999 else 1000)"
  by (simp add: multiplier_binary64_def)

lemma multiplier_binary64_range:
  "1 \<le> multiplier_binary64 p f c \<and> multiplier_binary64 p f c \<le> 1351079888211149 / 2 ^ 50"
  by (subst (1 2) multiplier_binary64_cases) (simp add: multiplier_binary64_values)

lemma sum_get_nonneg:
  "\<forall>item price. prices item = Some price \<longrightarrow> 0 \<le> price \<Longrightarrow>
     0 \<le> (\<Sum>item\<leftarrow>items. dict_get prices item (0::int))"
  by (induction items) (auto simp: dict_get_def split: option.splits)

lemma fallback_price_binary64_eq:
  assumes "nd ''fats'' = Some f" "nd ''carbs'' = Some c" "nd ''proteins'' = Some p"
  shows "fallback_price_binary64 prices nd items =
           Inr (float_mul (float_of_int (\<Sum>item\<leftarrow>items. dict_get prices item 0))
                  (multiplier_binary64 p f c))"
  using assms
  by (simp add: fallback_price_binary64_def multiplier_binary64_def getitem_def Let_def)

lemma predict_binary64_fallback:
  assumes "nd ''fats'' = Some f" "nd ''carbs'' = Some c"
    and "nd ''proteins'' = Some p" "nd ''fiber'' = Some fb"
    and unavailable: "fitted = None \<or>
           (\<exists>m row e. fitted = Some m \<and> input_data diet nd items budget = Inr row
                       \<and> m row = Inl e)"
  shows "predict_basket_price_binary64 fitted prices diet nd items budget =
           Inr (clamp
                  (float_mul (float_of_int (\<Sum>item\<leftarrow>items. dict_get prices item 0))
                     (multiplier_binary64 p f c))
                  (float_mul (float_of_int (\<Sum>item\<leftarrow>items. dict_get prices item 0))
                     (binary64 0.8))
                  (float_mul (float_of_int (\<Sum>item\<leftarrow>items. dict_get prices item 0))
                     (binary64 1.5)))"
proof -
  obtain row where row: "input_data diet nd items budget = Inr row"
    using input_data_fields[OF assms(1-4)] by blast
  from unavailable row
  have "\<exists>e. (case fitted of Some m \<Rightarrow> m row | None \<Rightarrow> Inl (ValueError ''Model not loaded''))
            = Inl e"
    by auto
  then show ?thesis
    using row fallback_price_binary64_eq[OF assms(1-3), of prices items]
    by (auto simp: predict_basket_price_binary64_def clamp_def Let_def)
qed

text \<open>The numbers of the concrete scenario.\<close>

lemma scenario_sum: "(\<Sum>item\<leftarrow>scenario_items. dict_get scenario_prices item 0) = 43"
  by (simp add: scenario_items_def scenario_prices_def dict_get_def)

lemma scenario_multiplier:
  "multiplier_binary64 200 50 1500 = 2476979795053773 / 2 ^ 51"
  "multiplier_binary64 200 50 1500 = binary64 1.1"
  by code_simp+

lemma scenario_product:
  "float_mul (float_of_int 43) (2476979795053773 / 2 ^ 51) = 6656883199207015 / 2 ^ 47"
  "float_mul (float_of_int 43) (binary64 0.8) = 4841369599423283 / 2 ^ 47"
  "float_mul (float_of_int 43) (binary64 1.5) = 129 / 2"
  "float_mul (float_of_int 43) (binary64 1.1) = 6656883199207015 / 2 ^ 47"
  by code_simp+

lemma scenario_band:
  "clamp (6656883199207015 / 2 ^ 47) (4841369599423283 / 2 ^ 47) (129 / 2 :: real)
     = 6656883199207015 / 2 ^ 47"
  by (simp add: clamp_def)

subsection \<open>Empty basket\<close>

text \<open>
  Claim C4. For every profile (all four nutrition entries present) and every budget,
  the function returns exactly 0 on an empty list of selected items, whether a model is
  loaded or not and whatever the model predicts.
\<close>

theorem empty_basket_zero:
  assumes "nd ''fats'' = Some f" "nd ''carbs'' = Some c"
    and "nd ''proteins'' = Some p" "nd ''fiber'' = Some fb"
  shows "predict_basket_price st diet nd [] budget = Inr 0"
proof -
  obtain row where row: "input_data diet nd [] budget = Inr row"
    using input_data_fields[OF assms] by blast
  have "raw_sum (all_items st) [] = 0" by (simp add: raw_sum_def)
  then show ?thesis
    using predict_eq[OF row assms(1,2,3), of st] by (simp add: clamp_def)
qed

theorem empty_basket_zero_witness:
  "scenario_profile 25 ''fats'' = Some 50
   \<and> scenario_profile 25 ''carbs'' = Some 1500
   \<and> scenario_profile 25 ''proteins'' = Some 200
   \<and> scenario_profile 25 ''fiber'' = Some 25
   \<and> predict_basket_price \<lparr>model = Some (\<lambda>row. Inr 250), all_items = scenario_catalog\<rparr>
        ''Keto'' (scenario_profile 25) [] 200 = Inr 0
   \<and> predict_basket_price \<lparr>model = None, all_items = scenario_catalog\<rparr>
        ''Keto'' (scenario_profile 25) [] 200 = Inr 0"
  using empty_basket_zero[of "scenario_profile 25" 50 1500 200 25
          "\<lparr>model = Some (\<lambda>row. Inr 250), all_items = scenario_catalog\<rparr>" "''Keto''" 200]
        empty_basket_zero[of "scenario_profile 25" 50 1500 200 25
          "\<lparr>model = None, all_items = scenario_catalog\<rparr>" "''Keto''" 200]
  by (simp add: scenario_profile_def)

subsection \<open>The concrete scenario\<close>

text \<open>
  Claim C5, as the specification states it, fails in the arithmetic of the source: with
  the catalog Milk (1L) 15, Bread (loaf) 8, Eggs (dozen) 20, all three items selected, no
  model and the profile proteins 200, fats 50, carbs 1500, the function does not return
  47.3, neither the decimal number nor the binary64 number nearest to it.
\<close>

theorem concrete_scenario_not_exact:
  "predict_basket_price_binary64 None scenario_prices ''Balanced'' (scenario_profile 25)
      scenario_items 200 \<noteq> Inr 47.3
   \<and> predict_basket_price_binary64 None scenario_prices ''Balanced'' (scenario_profile 25)
      scenario_items 200 \<noteq> Inr (binary64 47.3)"
proof -
  have keys: "scenario_profile 25 ''fats'' = Some 50"
    "scenario_profile 25 ''carbs'' = Some 1500"
    "scenario_profile 25 ''proteins'' = Some 200"
    "scenario_profile 25 ''fiber'' = Some 25"
    by (simp_all add: scenario_profile_def)
  have un: "(None :: price_model option) = None \<or>
      (\<exists>m row e. (None :: price_model option) = Some m
          \<and> input_data ''Balanced'' (scenario_profile 25) scenario_items 200 = Inr row
          \<and> m row = Inl e)"
    by simp
  have r: "predict_basket_price_binary64 None scenario_prices ''Balanced''
      (scenario_profile 25) scenario_items 200 = Inr (6656883199207015 / 2 ^ 47)"
    using predict_binary64_fallback[OF keys un, of scenario_prices]
    by (simp only: scenario_sum scenario_multiplier scenario_product scenario_band)
  have n: "binary64 47.3 = 6656883199207014 / 2 ^ 47" by code_simp
  have "(6656883199207015 / 2 ^ 47 :: real) \<noteq> 47.3" by simp
  moreover have "(6656883199207015 / 2 ^ 47 :: real) \<noteq> binary64 47.3"
    unfolding n by simp
  ultimately show ?thesis unfolding r by simp
qed

text \<open>
  Claim C5, amended. In that scenario, with no model available (none loaded, or the
  prediction raises), the function returns the binary64 product of 43 and the binary64
  multiplier 1.1, which is 6656883199207015 / 2 ^ 47 (printed 47.300000000000004): the
  next binary64 number above the one nearest to 47.3, less than 10 ^ -14 away from 47.3,
  and inside the clamp band from the binary64 product of 43 and 0.8 to 64.5. Diet type,
  fiber and budget are arbitrary.
\<close>

theorem concrete_scenario_binary64:
  "predict_basket_price_binary64 None scenario_prices diet (scenario_profile fiber)
      scenario_items budget = Inr (6656883199207015 / 2 ^ 47)
   \<and> predict_basket_price_binary64 (Some (\<lambda>row. Inl e)) scenario_prices diet
      (scenario_profile fiber) scenario_items budget = Inr (6656883199207015 / 2 ^ 47)
   \<and> (\<Sum>item\<leftarrow>scenario_items. dict_get scenario_prices item 0) = 43
   \<and> multiplier_binary64 200 50 1500 = binary64 1.1
   \<and> float_mul (float_of_int 43) (binary64 1.1) = 6656883199207015 / 2 ^ 47
   \<and> (6656883199207015 / 2 ^ 47 :: real) = binary64 47.3 + 1 / 2 ^ 47
   \<and> \<bar>6656883199207015 / 2 ^ 47 - 47.3 :: real\<bar> < 1 / 10 ^ 14
   \<and> float_mul (float_of_int 43) (binary64 0.8) \<le> 6656883199207015 / 2 ^ 47
   \<and> (6656883199207015 / 2 ^ 47 :: real) \<le> float_mul (float_of_int 43) (binary64 1.5)
   \<and> float_mul (float_of_int 43) (binary64 1.5) = 64.5"
proof -
  have keys: "scenario_profile fiber ''fats'' = Some 50"
    "scenario_profile fiber ''carbs'' = Some 1500"
    "scenario_profile fiber ''proteins'' = Some 200"
    "scenario_profile fiber ''fiber'' = Some fiber"
    by (simp_all add: scenario_profile_def)
  have near: "(6656883199207015 / 2 ^ 47 :: real) = binary64 47.3 + 1 / 2 ^ 47"
    by code_simp
  have un1: "(None :: price_model option) = None \<or>
      (\<exists>m row e'. (None :: price_model option) = Some m
          \<and> input_data diet (scenario_profile fiber) scenario_items budget = Inr row
          \<and> m row = Inl e')"
    by simp
  obtain row where row:
    "input_data diet (scenario_profile fiber) scenario_items budget = Inr row"
    using input_data_fields[OF keys] by blast
  have un2: "Some (\<lambda>row. Inl e) = (None :: price_model option) \<or>
      (\<exists>m row e'. Some (\<lambda>row. Inl e) = Some m
          \<and> input_data diet (scenario_profile fiber) scenario_items budget = Inr row
          \<and> m row = Inl e')"
    using row by auto
  have r1: "predict_basket_price_binary64 None scenario_prices diet (scenario_profile fiber)
      scenario_items budget = Inr (6656883199207015 / 2 ^ 47)"
    using predict_binary64_fallback[OF keys un1, of scenario_prices]
    by (simp only: scenario_sum scenario_multiplier scenario_product scenario_band)
  have r2: "predict_basket_price_binary64 (Some (\<lambda>row. Inl e)) scenario_prices diet
      (scenario_profile fiber) scenario_items budget = Inr (6656883199207015 / 2 ^ 47)"
    using predict_binary64_fallback[OF keys un2, of scenario_prices]
    by (simp only: scenario_sum scenario_multiplier scenario_product scenario_band)
  have close: "\<bar>6656883199207015 / 2 ^ 47 - 47.3 :: real\<bar> < 1 / 10 ^ 14" by simp
  have lo: "float_mul (float_of_int 43) (binary64 0.8) \<le> 6656883199207015 / 2 ^ 47"
    unfolding scenario_product(2) by simp
  have hi: "(6656883199207015 / 2 ^ 47 :: real) \<le> float_mul (float_of_int 43) (binary64 1.5)"
    unfolding scenario_product(3) by simp
  have hi': "float_mul (float_of_int 43) (binary64 1.5) = 64.5"
    unfolding scenario_product(3) by simp
  from r1 r2 scenario_sum scenario_multiplier(2) scenario_product(4) near close lo hi hi'
  show ?thesis by (intro conjI)
qed

subsection \<open>Bounds\<close>



subsection \<open>Fallback\<close>

text \<open>
  Claim C2. When the model is unavailable (the session holds no model, or the prediction
  raises on the row built from the request), the function returns the fallback product,
  raw sum times the stacked multiplier, clamped to the band from 0.8 to 1.5 times the raw
  sum. The statement is for all values of proteins, fats and carbs, hence for every
  combination of the three threshold conditions.
\<close>

theorem fallback_determinism:
  assumes "nd ''fats'' = Some f" "nd ''carbs'' = Some c"
    and "nd ''proteins'' = Some p" "nd ''fiber'' = Some fb"
    and unavailable: "model st = None \<or>
           (\<exists>m row e. model st = Some m \<and> input_data diet nd items budget = Inr row
                       \<and> m row = Inl e)"
  shows "predict_basket_price st diet nd items budget =
           Inr (clamp (raw_sum (all_items st) items * spec_multiplier p f c)
                      (0.8 * raw_sum (all_items st) items)
                      (1.5 * raw_sum (all_items st) items))"
proof -
  obtain row where row: "input_data diet nd items budget = Inr row"
    using input_data_fields[OF assms(1-4)] by blast
  from unavailable row have "\<exists>e. model_price st row = Inl e"
    by (auto simp: model_price_def)
  then show ?thesis
    using predict_eq[OF row assms(1-3), of st] by (auto simp: mult.commute)
qed

theorem fallback_determinism_witness:
  "model \<lparr>model = None, all_items = scenario_catalog\<rparr> = None
   \<and> predict_basket_price \<lparr>model = None, all_items = scenario_catalog\<rparr>
        ''Vegan'' [''proteins'' \<mapsto> 200, ''carbs'' \<mapsto> 900, ''fats'' \<mapsto> 90, ''fiber'' \<mapsto> 25]
        scenario_items 200 = Inr 51.6
   \<and> spec_multiplier 200 90 900 = 1.2"
proof -
  let ?st = "\<lparr>model = None, all_items = scenario_catalog\<rparr>"
  let ?nd = "[''proteins'' \<mapsto> 200, ''carbs'' \<mapsto> 900, ''fats'' \<mapsto> 90, ''fiber'' \<mapsto> (25::real)]"
  have keys: "?nd ''fats'' = Some 90" "?nd ''carbs'' = Some 900"
    "?nd ''proteins'' = Some 200" "?nd ''fiber'' = Some 25"
    by simp_all
  have un: "model ?st = None \<or>
           (\<exists>m row e. model ?st = Some m \<and> input_data ''Vegan'' ?nd scenario_items 200 = Inr row
                       \<and> m row = Inl e)"
    by simp
  have m: "spec_multiplier 200 90 900 = 1.2" by (simp add: spec_multiplier_def)
  have r: "raw_sum (all_items ?st) scenario_items = 43"
    by (simp add: raw_sum_def scenario_items_def scenario_catalog_def)
  from fallback_determinism[OF keys un] m r show ?thesis
    by (simp add: clamp_def)
qed

subsection \<open>The fallback and the clamp\<close>

text \<open>
  Claim C10, as stated, fails in the arithmetic of the source: with all three threshold
  conditions true (proteins 200, fats 90, carbs 900) the multiplier is
  1351079888211149 / 2 ^ 50, above 1.2, and for the scenario's basket the function returns
  more than 1.2 times the raw sum 43.
\<close>

theorem fallback_multiplier_exceeds:
  "multiplier_binary64 200 90 900 = 1351079888211149 / 2 ^ 50
   \<and> (1.2 :: real) < 1351079888211149 / 2 ^ 50
   \<and> predict_basket_price_binary64 None scenario_prices ''Balanced''
        [''proteins'' \<mapsto> 200, ''carbs'' \<mapsto> 900, ''fats'' \<mapsto> 90, ''fiber'' \<mapsto> 25]
        scenario_items 200 = Inr (3631027199567463 / 2 ^ 46)
   \<and> (1.2 * 43 :: real) < 3631027199567463 / 2 ^ 46"
proof -
  let ?nd = "[''proteins'' \<mapsto> 200, ''carbs'' \<mapsto> 900, ''fats'' \<mapsto> 90, ''fiber'' \<mapsto> (25::real)]"
  have keys: "?nd ''fats'' = Some 90" "?nd ''carbs'' = Some 900"
    "?nd ''proteins'' = Some 200" "?nd ''fiber'' = Some 25"
    by simp_all
  have un: "(None :: price_model option) = None \<or>
      (\<exists>m row e. (None :: price_model option) = Some m
          \<and> input_data ''Balanced'' ?nd scenario_items 200 = Inr row \<and> m row = Inl e)"
    by simp
  have m: "multiplier_binary64 200 90 900 = 1351079888211149 / 2 ^ 50"
    using multiplier_binary64_cases[of 200 90 900]
    by (simp add: multiplier_binary64_values)
  have v: "float_mul (float_of_int 43) (1351079888211149 / 2 ^ 50) = 3631027199567463 / 2 ^ 46"
    by code_simp
  have band: "clamp (3631027199567463 / 2 ^ 46) (4841369599423283 / 2 ^ 47) (129 / 2 :: real)
                = 3631027199567463 / 2 ^ 46"
    by (simp add: clamp_def)
  have r: "predict_basket_price_binary64 None scenario_prices ''Balanced'' ?nd
      scenario_items 200 = Inr (3631027199567463 / 2 ^ 46)"
    using predict_binary64_fallback[OF keys un, of scenario_prices]
    by (simp only: scenario_sum m v scenario_product(2,3) band)
  have "(1.2 :: real) < 1351079888211149 / 2 ^ 50" by simp
  moreover have "(1.2 * 43 :: real) < 3631027199567463 / 2 ^ 46" by simp
  ultimately show ?thesis using m r by (intro conjI)
qed

text \<open>
  Claim C10, amended. On the fallback path, for a catalog of non-negative integer prices
  (and a raw sum below 2 ^ 1023, where binary64 does not overflow), the multiplier lies
  between 1.0 and 1351079888211149 / 2 ^ 50 (printed 1.2000000000000002), hence between
  the binary64 numbers 0.8 and 1.5, and the clamp changes nothing: the function returns
  the binary64 product of the raw sum and the multiplier.
\<close>

theorem fallback_clamp_noop_binary64:
  assumes "nd ''fats'' = Some f" "nd ''carbs'' = Some c"
    and "nd ''proteins'' = Some p" "nd ''fiber'' = Some fb"
    and nonneg: "\<forall>item price. prices item = Some price \<longrightarrow> 0 \<le> price"
    and range: "(\<Sum>item\<leftarrow>items. dict_get prices item 0) < 2 ^ 1023"
    and unavailable: "fitted = None \<or>
           (\<exists>m row e. fitted = Some m \<and> input_data diet nd items budget = Inr row
                       \<and> m row = Inl e)"
  shows "1 \<le> multiplier_binary64 p f c
         \<and> multiplier_binary64 p f c \<le> 1351079888211149 / 2 ^ 50
         \<and> binary64 0.8 \<le> multiplier_binary64 p f c
         \<and> multiplier_binary64 p f c \<le> binary64 1.5
         \<and> predict_basket_price_binary64 fitted prices diet nd items budget =
             Inr (float_mul (float_of_int (\<Sum>item\<leftarrow>items. dict_get prices item 0))
                    (multiplier_binary64 p f c))"
proof -
  let ?S = "float_of_int (\<Sum>item\<leftarrow>items. dict_get prices item 0)"
  let ?m = "multiplier_binary64 p f c"
  have m: "1 \<le> ?m" "?m \<le> 1351079888211149 / 2 ^ 50"
    using multiplier_binary64_range[of p f c] by simp_all
  have m8: "binary64 0.8 \<le> ?m" using m(1) unfolding binary64_literals by simp
  have m15: "?m \<le> binary64 1.5" using m(2) unfolding binary64_literals by simp
  have "0 \<le> (\<Sum>item\<leftarrow>items. dict_get prices item 0)"
    using nonneg by (rule sum_get_nonneg)
  then have S: "0 \<le> ?S" unfolding float_of_int_def by (intro binary64_nonneg) simp
  have b8: "0 \<le> binary64 0.8" unfolding binary64_literals by simp
  have lo: "float_mul ?S (binary64 0.8) \<le> float_mul ?S ?m"
    unfolding float_mul_def
    by (rule binary64_mono) (use S b8 m8 in \<open>auto intro: mult_left_mono\<close>)
  have hi: "float_mul ?S ?m \<le> float_mul ?S (binary64 1.5)"
    unfolding float_mul_def
    by (rule binary64_mono) (use S m m15 in \<open>auto intro: mult_left_mono\<close>)
  have "clamp (float_mul ?S ?m) (float_mul ?S (binary64 0.8)) (float_mul ?S (binary64 1.5))
          = float_mul ?S ?m"
    using lo hi by (simp add: clamp_def)
  with predict_binary64_fallback[OF assms(1-4) unavailable, of prices] m m8 m15
  show ?thesis by simp
qed

theorem fallback_clamp_noop_binary64_witness:
  "(\<Sum>item\<leftarrow>scenario_items. dict_get scenario_prices item 0) < 2 ^ 1023
   \<and> (None :: price_model option) = None
   \<and> (1 :: real) \<le> multiplier_binary64 200 90 900
   \<and> multiplier_binary64 200 90 900 \<le> binary64 1.5
   \<and> predict_basket_price_binary64 None scenario_prices ''Balanced''
        [''proteins'' \<mapsto> 200, ''carbs'' \<mapsto> 900, ''fats'' \<mapsto> 90, ''fiber'' \<mapsto> 25]
        scenario_items 200
       = Inr (float_mul (float_of_int 43) (multiplier_binary64 200 90 900))"
proof -
  let ?nd = "[''proteins'' \<mapsto> 200, ''carbs'' \<mapsto> 900, ''fats'' \<mapsto> 90, ''fiber'' \<mapsto> (25::real)]"
  have keys: "?nd ''fats'' = Some 90" "?nd ''carbs'' = Some 900"
    "?nd ''proteins'' = Some 200" "?nd ''fiber'' = Some 25"
    by simp_all
  have nonneg: "\<forall>item price. scenario_prices item = Some price \<longrightarrow> 0 \<le> price"
    by (auto simp: scenario_prices_def split: if_splits)
  have S: "(\<Sum>item\<leftarrow>scenario_items. dict_get scenario_prices item 0) = 43"
    by (simp add: scenario_items_def scenario_prices_def dict_get_def)
  have range: "(\<Sum>item\<leftarrow>scenario_items. dict_get scenario_prices item 0) < 2 ^ 1023"
    by (simp add: S)
  have un: "(None :: price_model option) = None \<or>
      (\<exists>m row e. (None :: price_model option) = Some m
          \<and> input_data ''Balanced'' ?nd scenario_items 200 = Inr row \<and> m row = Inl e)"
    by simp
  from fallback_clamp_noop_binary64[OF keys nonneg range un] S range
  show ?thesis by simp
qed

subsection \<open>Errors\<close>

text \<open>
  Claim C3. For a well-formed request (all four nutrition entries present, a positive
  budget) whose selected items are all in the catalog, the function returns a number and
  never an error: the row is built, and the result is the clamped model prediction, or
  the clamped fallback product whenever the try block raised (no model loaded, or the
  prediction raised).
\<close>

theorem never_raises:
  assumes "nd ''fats'' = Some f" "nd ''carbs'' = Some c"
    and "nd ''proteins'' = Some p" "nd ''fiber'' = Some fb"
    and present: "set items \<subseteq> dom (all_items st)" and "0 < budget"
  shows "\<exists>row. input_data diet nd items budget = Inr row \<and>
           predict_basket_price st diet nd items budget =
             Inr (clamp (case model_price st row of
                           Inr v \<Rightarrow> v
                         | Inl e \<Rightarrow> (\<Sum>item\<leftarrow>items. the (all_items st item)) * spec_multiplier p f c)
                        ((\<Sum>item\<leftarrow>items. the (all_items st item)) * 0.8)
                        ((\<Sum>item\<leftarrow>items. the (all_items st item)) * 1.5))"
proof -
  obtain row where row: "input_data diet nd items budget = Inr row"
    using input_data_fields[OF assms(1-4)] by blast
  show ?thesis
    using predict_eq[OF row assms(1-3), of st] row raw_sum_present[OF present]
    by (simp split: sum.splits)
qed

theorem never_raises_witness:
  "set scenario_items \<subseteq> dom scenario_catalog \<and> (0::real) < 200
   \<and> (\<exists>v. predict_basket_price
          \<lparr>model = Some (\<lambda>row. Inl (PredictError ''shape'')), all_items = scenario_catalog\<rparr>
          ''Keto'' (scenario_profile 25) scenario_items 200 = Inr v)"
proof -
  let ?st = "\<lparr>model = Some (\<lambda>row. Inl (PredictError ''shape'')), all_items = scenario_catalog\<rparr>"
  have keys: "scenario_profile 25 ''fats'' = Some 50" "scenario_profile 25 ''carbs'' = Some 1500"
    "scenario_profile 25 ''proteins'' = Some 200" "scenario_profile 25 ''fiber'' = Some 25"
    by (simp_all add: scenario_profile_def)
  have sub: "set scenario_items \<subseteq> dom (all_items ?st)"
    by (simp add: scenario_items_def scenario_catalog_def)
  have bud: "(0::real) < 200" by simp
  from never_raises[OF keys sub bud, of "''Keto''"] sub show ?thesis by auto
qed

text \<open>
  Claim C6. A selected item that the catalog does not list counts as 0: with known the
  sum of the prices of the listed items alone, the fallback product is known times the
  multiplier, both clamp bounds are computed from known, and the function returns a number
  and no error.
\<close>

theorem absent_item_priced_zero:
  assumes "nd ''fats'' = Some f" "nd ''carbs'' = Some c"
    and "nd ''proteins'' = Some p" "nd ''fiber'' = Some fb"
    and known: "known = (\<Sum>item\<leftarrow>filter (\<lambda>item. all_items st item \<noteq> None) items.
                          the (all_items st item))"
  shows "\<exists>row. input_data diet nd items budget = Inr row \<and>
           fallback_price st nd items = Inr (known * spec_multiplier p f c) \<and>
           predict_basket_price st diet nd items budget =
             Inr (clamp (case model_price st row of
                           Inr v \<Rightarrow> v
                         | Inl e \<Rightarrow> known * spec_multiplier p f c)
                        (known * 0.8) (known * 1.5))"
proof -
  obtain row where row: "input_data diet nd items budget = Inr row"
    using input_data_fields[OF assms(1-4)] by blast
  have k: "raw_sum (all_items st) items = known"
    unfolding known by (rule raw_sum_filter)
  show ?thesis
    using predict_eq[OF row assms(1-3), of st] fallback_price_eq[OF assms(1-3), of st items] row k
    by (simp split: sum.splits)
qed

theorem absent_item_priced_zero_witness:
  "scenario_catalog ''Dragon Fruit'' = None
   \<and> fallback_price \<lparr>model = None, all_items = scenario_catalog\<rparr> (scenario_profile 25)
        [''Milk (1L)'', ''Dragon Fruit'', ''Eggs (dozen)''] = Inr 38.5
   \<and> predict_basket_price \<lparr>model = None, all_items = scenario_catalog\<rparr>
        ''Keto'' (scenario_profile 25) [''Milk (1L)'', ''Dragon Fruit'', ''Eggs (dozen)''] 200
       = Inr 38.5"
proof -
  let ?st = "\<lparr>model = None, all_items = scenario_catalog\<rparr>"
  let ?items = "[''Milk (1L)'', ''Dragon Fruit'', ''Eggs (dozen)'']"
  have keys: "scenario_profile 25 ''fats'' = Some 50" "scenario_profile 25 ''carbs'' = Some 1500"
    "scenario_profile 25 ''proteins'' = Some 200" "scenario_profile 25 ''fiber'' = Some 25"
    by (simp_all add: scenario_profile_def)
  have k: "(\<Sum>item\<leftarrow>filter (\<lambda>item. all_items ?st item \<noteq> None) ?items.
              the (all_items ?st item)) = 35"
    by (simp add: scenario_catalog_def)
  have m: "spec_multiplier 200 50 1500 = 1.1" by (simp add: spec_multiplier_def)
  have mp: "\<And>row. model_price ?st row = Inl (ValueError ''Model not loaded'')"
    by (simp add: model_price_def)
  have a: "scenario_catalog ''Dragon Fruit'' = None" by (simp add: scenario_catalog_def)
  from absent_item_priced_zero[OF keys k[symmetric], of "''Keto''" 200] m mp a
  show ?thesis by (auto simp: clamp_def)
qed

subsection \<open>The protein feature\<close>

text \<open>
  Claim C7. In the row handed to the model, Has_Protein is 1 if some selected item name
  contains Chicken, Eggs or Milk as a contiguous case-sensitive substring and 0 otherwise.
  The row is built from the item names alone, without the catalog, and a loaded model is
  called on exactly this row.
\<close>

theorem has_protein_feature:
  assumes "input_data diet nd items budget = Inr row"
  shows "Has_Protein row =
     (if \<exists>item \<in> set items. contains item ''Chicken'' \<or> contains item ''Eggs''
                               \<or> contains item ''Milk''
      then 1 else 0)
     \<and> model_price \<lparr>model = Some m, all_items = catalog\<rparr> row = m row"
proof -
  have "Has_Protein row =
      (if list_ex (\<lambda>item. str_in ''Chicken'' item \<or> str_in ''Eggs'' item
                                   \<or> str_in ''Milk'' item) items then 1 else 0)"
    using assms by (auto simp: input_data_def split: sum.splits)
  then have "Has_Protein row =
     (if \<exists>item \<in> set items. contains item ''Chicken'' \<or> contains item ''Eggs''
                               \<or> contains item ''Milk''
      then 1 else 0)"
    by (simp only: list_ex_iff str_in_contains)
  then show ?thesis by (simp add: model_price_def)
qed

theorem has_protein_feature_witness:
  "(\<exists>row. input_data ''Keto'' (scenario_profile 25) [''Bread (loaf)'', ''Chicken Wings''] 200 = Inr row
          \<and> Has_Protein row = 1)
   \<and> (\<exists>row. input_data ''Keto'' (scenario_profile 25) [''Bread (loaf)'', ''milk''] 200 = Inr row
          \<and> Has_Protein row = 0)"
proof -
  have keys: "scenario_profile 25 ''fats'' = Some 50" "scenario_profile 25 ''carbs'' = Some 1500"
    "scenario_profile 25 ''proteins'' = Some 200" "scenario_profile 25 ''fiber'' = Some 25"
    by (simp_all add: scenario_profile_def)
  obtain r1 where r1:
    "input_data ''Keto'' (scenario_profile 25) [''Bread (loaf)'', ''Chicken Wings''] 200 = Inr r1"
    using input_data_fields[OF keys] by blast
  obtain r2 where r2:
    "input_data ''Keto'' (scenario_profile 25) [''Bread (loaf)'', ''milk''] 200 = Inr r2"
    using input_data_fields[OF keys] by blast
  have "Has_Protein r1 = 1"
    using has_protein_feature[OF r1] by (simp add: str_in_contains[symmetric])
  moreover have "Has_Protein r2 = 0"
    using has_protein_feature[OF r2] by (simp add: str_in_contains[symmetric])
  ultimately show ?thesis using r1 r2 by blast
qed

subsection \<open>The four copies\<close>

text \<open>
  Claim C9. The copies of predict_basket_price in BeldyConnect.py, Beldy-Connect.py and
  Beldy_Connect.py return the same result as the one in Capstone.py, for the same session
  state (model and catalog), diet type, nutrition data, selected items and budget.
\<close>

theorem four_copies_agree:
  "predict_basket_price_BeldyConnect st diet nd items budget =
     predict_basket_price st diet nd items budget
   \<and> predict_basket_price_BeldyHyphenConnect st diet nd items budget =
     predict_basket_price st diet nd items budget
   \<and> predict_basket_price_BeldyUnderscoreConnect st diet nd items budget =
     predict_basket_price st diet nd items budget"
proof -
  have "predict_basket_price_BeldyConnect st diet nd items budget =
     predict_basket_price st diet nd items budget"
    unfolding predict_basket_price_def predict_basket_price_BeldyConnect_def
        input_data_def model_price_def fallback_price_def
    by (cases "getitem nd ''fats''"; cases "getitem nd ''carbs''";
        cases "getitem nd ''proteins''"; cases "getitem nd ''fiber''")
       (simp_all only: sum.case Let_def)
  moreover have "predict_basket_price_BeldyHyphenConnect st diet nd items budget =
     predict_basket_price st diet nd items budget"
    unfolding predict_basket_price_def predict_basket_price_BeldyHyphenConnect_def
        input_data_def model_price_def fallback_price_def
    by (cases "getitem nd ''fats''"; cases "getitem nd ''carbs''";
        cases "getitem nd ''proteins''"; cases "getitem nd ''fiber''")
       (simp_all only: sum.case Let_def)
  moreover have "predict_basket_price_BeldyUnderscoreConnect st diet nd items budget =
     predict_basket_price st diet nd items budget"
    unfolding predict_basket_price_def predict_basket_price_BeldyUnderscoreConnect_def
        input_data_def model_price_def fallback_price_def
    by (cases "getitem nd ''fats''"; cases "getitem nd ''carbs''";
        cases "getitem nd ''proteins''"; cases "getitem nd ''fiber''")
       (simp_all only: sum.case Let_def)
  ultimately show ?thesis by (intro conjI)
qed

end
